theory Spec2Isabelle
  imports Complex_Main
begin

section \<open>JavaScript numbers\<close>

text \<open>
  Balances and cheque amounts are JavaScript Numbers: IEEE-754 binary64 values. Every
  finite double is a rational, so a Number is modelled as a \<open>rat\<close> and the one arithmetic
  operation of the program, \<open>userBalance + amount\<close>, as the exact sum rounded to the
  nearest double, ties to even (\<open>js_add\<close>). Unary minus and the comparisons are exact.
  The exponent range is left unbounded: overflow to Infinity and subnormal results are
  not modelled, and neither are NaN balances nor the sign of zero.
\<close>

function bitlen :: "int \<Rightarrow> int" where
  "bitlen n = (if n \<le> 0 then 0 else 1 + bitlen (n div 2))"
  by pat_completeness auto
termination
  by (relation "measure nat") auto

declare bitlen.simps [simp del]

definition pow2 :: "int \<Rightarrow> rat" where
  "pow2 k = (if 0 \<le> k then 2 ^ nat k else 1 / 2 ^ nat (- k))"

text \<open>\<open>ilog2 x\<close> is the binary exponent of a non-zero \<open>x\<close>: \<open>2 ^ ilog2 x \<le> \<bar>x\<bar> < 2 ^ (ilog2 x + 1)\<close>.\<close>

definition ilog2 :: "rat \<Rightarrow> int" where
  "ilog2 x = (case quotient_of \<bar>x\<bar> of (p, q) \<Rightarrow>
     (let d = bitlen p - bitlen q
      in if pow2 d \<le> \<bar>x\<bar> then d else d - 1))"

definition round_half_even :: "rat \<Rightarrow> int" where
  "round_half_even r = (let f = \<lfloor>r\<rfloor>; t = r - of_int f
     in if t < 1 / 2 then f else if 1 / 2 < t then f + 1 else if even f then f else f + 1)"

text \<open>\<open>fl x\<close> is the double nearest to \<open>x\<close>: 53 significant bits, ties to even.\<close>

definition fl :: "rat \<Rightarrow> rat" where
  "fl x = (if x = 0 then 0 else
     (let u = pow2 (ilog2 x - 52) in of_int (round_half_even (x / u)) * u))"

definition js_add :: "rat \<Rightarrow> rat \<Rightarrow> rat" where
  "js_add x y = fl (x + y)"

section \<open>Documents and collections\<close>

text \<open>
  A cheque document, as \<open>handleCreateCheque\<close> writes it to the owner's \<open>cheques\<close>
  subcollection and to the public collection. \<open>active\<close> is the number 1 for a live cheque
  and 0 once it has been activated or deleted. The time stamp \<open>created_at\<close> and the
  display-only fields \<open>owner_first_name\<close> and \<open>owner_username\<close> of the public copy are
  left out: no operation reads them except to build the text of a message.
\<close>

record cheque =
  short_id :: string
  owner_id :: string
  amount :: rat
  active :: nat
  anonymous :: bool

text \<open>The profile document of a user; only its \<open>balance\<close> field is read or written here.\<close>

record profile =
  balance :: rat

text \<open>
  A collection is the list of its documents with their ids, in the order in which the
  store hands them out to a query. Where the store puts a new document in that order is
  its own affair (here: at the end); the properties below hold for every order.
\<close>

type_synonym 'a collection = "(string \<times> 'a) list"

record store =
  profiles :: "string \<Rightarrow> profile option"
  cheques :: "string \<Rightarrow> cheque collection"
  public_cheques :: "cheque collection"

definition doc_exists :: "string \<Rightarrow> 'a collection \<Rightarrow> bool" where
  "doc_exists k xs = (k \<in> set (map fst xs))"

text \<open>\<open>setDoc\<close> creates the document or overwrites the one stored under the same id.\<close>

definition setDoc :: "string \<Rightarrow> 'a \<Rightarrow> 'a collection \<Rightarrow> 'a collection" where
  "setDoc k d xs =
     (if doc_exists k xs then map (\<lambda>(k', d'). if k' = k then (k', d) else (k', d')) xs
      else xs @ [(k, d)])"

text \<open>\<open>updateDoc\<close> changes fields of an existing document; the store rejects it (\<open>None\<close>)
  when there is no document under that id.\<close>

definition updateDoc :: "string \<Rightarrow> ('a \<Rightarrow> 'a) \<Rightarrow> 'a collection \<Rightarrow> 'a collection option" where
  "updateDoc k f xs =
     (if doc_exists k xs then Some (map (\<lambda>(k', d'). if k' = k then (k', f d') else (k', d')) xs)
      else None)"

definition deactivate :: "cheque \<Rightarrow> cheque" where
  "deactivate d = d\<lparr>active := 0\<rparr>"

text \<open>The query \<open>where('short_id', '==', code)\<close> over the public collection.\<close>

definition query_short_id :: "string \<Rightarrow> cheque collection \<Rightarrow> cheque collection" where
  "query_short_id code xs = filter (\<lambda>(k, d). short_id d = code) xs"

text \<open>The loop of \<open>handleActivateCheque\<close> over the query result: the first document whose
  \<open>active\<close> field is 1, with its id.\<close>

fun find_active :: "cheque collection \<Rightarrow> (string \<times> cheque) option" where
  "find_active [] = None"
| "find_active ((k, d) # ds) = (if active d = 1 then Some (k, d) else find_active ds)"

section \<open>The state of one running application\<close>

text \<open>The messages \<open>showMessage\<close> displays, one constructor for each text of the source.\<close>

datatype message_text =
    BalanceUpdated rat
  | BalanceUpdateError
  | InvalidAmount
  | InsufficientFunds
  | ChequeCreated rat string
  | CreateError
  | EnterChequeId
  | ChequeDoesNotExist
  | ChequeActivatedOrDeleted
  | CannotActivateOwn
  | ChequeActivated rat bool
  | ActivateError
  | ChequeDeleted string rat
  | DeleteError

text \<open>
  The React state of the component. \<open>db\<close> tells whether the store handle is set;
  \<open>userBalance\<close> and \<open>activeCheques\<close> are the component's last snapshot of the profile
  and of the user's live cheques; \<open>createAmount\<close> holds what \<open>parseFloat\<close> makes of the
  amount field (\<open>None\<close> for NaN). Page navigation, the loading flag and the modal dialog
  are left out.
\<close>

record client =
  db :: bool
  userId :: "string option"
  userBalance :: rat
  activeCheques :: "cheque collection"
  createAmount :: "rat option"
  createIsAnonymous :: bool
  activateChequeId :: string
  message :: "message_text option"

definition showMessage :: "message_text \<Rightarrow> client \<Rightarrow> client" where
  "showMessage m c = c\<lparr>message := Some m\<rparr>"

text \<open>The guard \<open>if (!db || !userId) return\<close>: the signed-in user, if there is one.\<close>

definition current_user :: "client \<Rightarrow> string option" where
  "current_user c =
     (if \<not> db c then None
      else case userId c of None \<Rightarrow> None | Some u \<Rightarrow> if u = [] then None else Some u)"

section \<open>The operations\<close>

text \<open>The ten hexadecimal digits of \<open>generateShortId\<close>; \<open>rnd i\<close> is the value of
  \<open>Math.random() * 16 | 0\<close> at the \<open>i\<close>-th character, a number from 0 to 15.\<close>

definition hex_digit :: "nat \<Rightarrow> char" where
  "hex_digit r = ''0123456789abcdef'' ! (r mod 16)"

definition generateShortId :: "(nat \<Rightarrow> nat) \<Rightarrow> string" where
  "generateShortId rnd = map (\<lambda>i. hex_digit (rnd i)) [0..<10]"

text \<open>\<open>changeBalance\<close> writes the component's own \<open>userBalance\<close> plus the amount to the
  profile; a rejected write is caught inside and only shows a message.\<close>

definition changeBalance :: "rat \<Rightarrow> client \<Rightarrow> store \<Rightarrow> client \<times> store" where
  "changeBalance amt c st =
     (case current_user c of
        None \<Rightarrow> (c, st)
      | Some u \<Rightarrow>
          (case profiles st u of
             None \<Rightarrow> (showMessage BalanceUpdateError c, st)
           | Some p \<Rightarrow>
               (showMessage (BalanceUpdated amt) c,
                st\<lparr>profiles := (profiles st)(u \<mapsto> p\<lparr>balance := js_add (userBalance c) amt\<rparr>)\<rparr>)))"

definition handleCreateCheque :: "(nat \<Rightarrow> nat) \<Rightarrow> client \<Rightarrow> store \<Rightarrow> client \<times> store" where
  "handleCreateCheque rnd c st =
     (case current_user c of
        None \<Rightarrow> (c, st)
      | Some u \<Rightarrow>
          (case createAmount c of
             None \<Rightarrow> (showMessage InvalidAmount c, st)
           | Some a \<Rightarrow>
               if a \<le> 0 then (showMessage InvalidAmount c, st)
               else if userBalance c < a then (showMessage InsufficientFunds c, st)
               else
                 (let chequeId = generateShortId rnd;
                      fullChequeId = u @ ''-'' @ chequeId;
                      (c1, st1) = changeBalance (- a) c st;
                      d = \<lparr>short_id = chequeId, owner_id = u, amount = a, active = 1,
                           anonymous = createIsAnonymous c\<rparr>;
                      st2 = st1\<lparr>cheques := (cheques st1)(u := setDoc fullChequeId d (cheques st1 u))\<rparr>;
                      st3 = st2\<lparr>public_cheques := setDoc fullChequeId d (public_cheques st2)\<rparr>
                  in (showMessage (ChequeCreated a chequeId)
                        (c1\<lparr>createAmount := None, createIsAnonymous := False\<rparr>), st3))))"

definition handleActivateCheque :: "client \<Rightarrow> store \<Rightarrow> client \<times> store" where
  "handleActivateCheque c st =
     (case current_user c of
        None \<Rightarrow> (c, st)
      | Some u \<Rightarrow>
          if activateChequeId c = [] then (showMessage EnterChequeId c, st)
          else
            (let docs = query_short_id (activateChequeId c) (public_cheques st) in
             if docs = [] then (showMessage ChequeDoesNotExist c, st)
             else
               (case find_active docs of
                  None \<Rightarrow> (showMessage ChequeActivatedOrDeleted c, st)
                | Some (fullChequeId, chequeData) \<Rightarrow>
                    if owner_id chequeData = u then (showMessage CannotActivateOwn c, st)
                    else
                      (case updateDoc fullChequeId deactivate (public_cheques st) of
                         None \<Rightarrow> (showMessage ActivateError c, st)
                       | Some pub \<Rightarrow>
                           (let st1 = st\<lparr>public_cheques := pub\<rparr> in
                            case updateDoc fullChequeId deactivate
                                   (cheques st1 (owner_id chequeData)) of
                              None \<Rightarrow> (showMessage ActivateError c, st1)
                            | Some priv \<Rightarrow>
                                (let st2 = st1\<lparr>cheques :=
                                             (cheques st1)(owner_id chequeData := priv)\<rparr>;
                                     (c3, st3) = changeBalance (amount chequeData) c st2
                                 in (showMessage
                                       (ChequeActivated (amount chequeData) (anonymous chequeData))
                                       (c3\<lparr>activateChequeId := []\<rparr>), st3)))))))"

text \<open>\<open>handleDeleteCheque\<close> opens a confirmation dialog for a cheque of the list
  \<open>activeCheques\<close>; this is its \<open>onConfirm\<close> action, for the cheque with document id \<open>cid\<close>.\<close>

definition handleDeleteCheque :: "string \<times> cheque \<Rightarrow> client \<Rightarrow> store \<Rightarrow> client \<times> store" where
  "handleDeleteCheque ch c st =
     (case ch of (cid, cheque) \<Rightarrow>
        (case current_user c of
           None \<Rightarrow> (c, st)
         | Some u \<Rightarrow>
             (case updateDoc cid deactivate (cheques st u) of
                None \<Rightarrow> (showMessage DeleteError c, st)
              | Some priv \<Rightarrow>
                  (let st1 = st\<lparr>cheques := (cheques st)(u := priv)\<rparr> in
                   case updateDoc cid deactivate (public_cheques st1) of
                     None \<Rightarrow> (showMessage DeleteError c, st1)
                   | Some pub \<Rightarrow>
                       (let st2 = st1\<lparr>public_cheques := pub\<rparr>;
                            (c3, st3) = changeBalance (amount cheque) c st2
                        in (showMessage (ChequeDeleted (short_id cheque) (amount cheque)) c3,
                            st3))))))"

section \<open>Sign-in and the snapshot listeners\<close>

definition initial_client :: client where
  "initial_client =
     \<lparr>db = False, userId = None, userBalance = 0, activeCheques = [], createAmount = None,
      createIsAnonymous = False, activateChequeId = [], message = None\<rparr>"

definition empty_store :: store where
  "empty_store = \<lparr>profiles = (\<lambda>u. None), cheques = (\<lambda>u. []), public_cheques = []\<rparr>"

text \<open>\<open>onAuthStateChanged\<close> with a user: the profile is created with balance 0 on the
  first sighting, and read otherwise.\<close>

definition authStateChanged :: "string \<Rightarrow> client \<Rightarrow> store \<Rightarrow> client \<times> store" where
  "authStateChanged uid c st =
     (case profiles st uid of
        None \<Rightarrow>
          (c\<lparr>db := True, userId := Some uid, userBalance := 0\<rparr>,
           st\<lparr>profiles := (profiles st)(uid \<mapsto> \<lparr>balance = 0\<rparr>)\<rparr>)
      | Some p \<Rightarrow> (c\<lparr>db := True, userId := Some uid, userBalance := balance p\<rparr>, st))"

text \<open>The two \<open>onSnapshot\<close> listeners of the signed-in user: the profile, and the cheques
  with \<open>active == 1\<close>. The source reads \<open>data.balance || 0\<close>, which is the balance itself
  for every finite Number.\<close>

definition profileSnapshot :: "client \<Rightarrow> store \<Rightarrow> client" where
  "profileSnapshot c st =
     (case current_user c of
        None \<Rightarrow> c
      | Some u \<Rightarrow> (case profiles st u of None \<Rightarrow> c | Some p \<Rightarrow> c\<lparr>userBalance := balance p\<rparr>))"

definition chequesSnapshot :: "client \<Rightarrow> store \<Rightarrow> client" where
  "chequesSnapshot c st =
     (case current_user c of
        None \<Rightarrow> c
      | Some u \<Rightarrow> c\<lparr>activeCheques := filter (\<lambda>(k, d). active d = 1) (cheques st u)\<rparr>)"

section \<open>Several applications on one store\<close>

text \<open>
  Any number of running applications share the store. An event is one listener call or
  one user action in the application with the given index; a cheque is deleted by its
  position in the list the application shows.
\<close>

record system =
  clients :: "client list"
  firestore :: store

datatype event =
    AuthStateChanged nat string
  | ProfileSnapshot nat
  | ChequesSnapshot nat
  | SetCreateAmount nat "rat option"
  | SetCreateIsAnonymous nat bool
  | SetActivateChequeId nat string
  | CreateCheque nat "nat \<Rightarrow> nat"
  | ActivateCheque nat
  | DeleteCheque nat nat

definition with_client :: "nat \<Rightarrow> (client \<Rightarrow> store \<Rightarrow> client \<times> store) \<Rightarrow> system \<Rightarrow> system" where
  "with_client i f s =
     (if i < length (clients s)
      then (case f (clients s ! i) (firestore s) of
              (c', st') \<Rightarrow> s\<lparr>clients := (clients s)[i := c'], firestore := st'\<rparr>)
      else s)"

fun step :: "event \<Rightarrow> system \<Rightarrow> system" where
  "step (AuthStateChanged i uid) s = with_client i (authStateChanged uid) s"
| "step (ProfileSnapshot i) s = with_client i (\<lambda>c st. (profileSnapshot c st, st)) s"
| "step (ChequesSnapshot i) s = with_client i (\<lambda>c st. (chequesSnapshot c st, st)) s"
| "step (SetCreateAmount i a) s = with_client i (\<lambda>c st. (c\<lparr>createAmount := a\<rparr>, st)) s"
| "step (SetCreateIsAnonymous i b) s = with_client i (\<lambda>c st. (c\<lparr>createIsAnonymous := b\<rparr>, st)) s"
| "step (SetActivateChequeId i code) s = with_client i (\<lambda>c st. (c\<lparr>activateChequeId := code\<rparr>, st)) s"
| "step (CreateCheque i rnd) s = with_client i (handleCreateCheque rnd) s"
| "step (ActivateCheque i) s = with_client i handleActivateCheque s"
| "step (DeleteCheque i n) s =
     with_client i (\<lambda>c st. if n < length (activeCheques c)
                             then handleDeleteCheque (activeCheques c ! n) c st else (c, st)) s"

fun run :: "event list \<Rightarrow> system \<Rightarrow> system" where
  "run [] s = s"
| "run (e # es) s = run es (step e s)"

definition initial_system :: "nat \<Rightarrow> system" where
  "initial_system n = \<lparr>clients = replicate n initial_client, firestore = empty_store\<rparr>"

text \<open>No balance and no amount is negative, in the store and in what the applications hold.\<close>

definition amounts_ok :: "cheque collection \<Rightarrow> bool" where
  "amounts_ok xs \<longleftrightarrow> (\<forall>(k, d) \<in> set xs. 0 \<le> amount d)"

definition store_ok :: "store \<Rightarrow> bool" where
  "store_ok st \<longleftrightarrow>
     (\<forall>u p. profiles st u = Some p \<longrightarrow> 0 \<le> balance p) \<and>
     (\<forall>u. amounts_ok (cheques st u)) \<and> amounts_ok (public_cheques st)"

definition client_ok :: "client \<Rightarrow> bool" where
  "client_ok c \<longleftrightarrow> 0 \<le> userBalance c \<and> amounts_ok (activeCheques c)"

definition system_ok :: "system \<Rightarrow> bool" where
  "system_ok s \<longleftrightarrow> store_ok (firestore s) \<and> (\<forall>c \<in> set (clients s). client_ok c)"

section \<open>The round trip\<close>


section \<open>Example data\<close>

definition signed_in :: "string \<Rightarrow> rat \<Rightarrow> client" where
  "signed_in u b = initial_client\<lparr>db := True, userId := Some u, userBalance := b\<rparr>"

definition funded_store :: "rat \<Rightarrow> store" where
  "funded_store b =
     empty_store\<lparr>profiles := (\<lambda>u. if u = ''alice'' then Some \<lparr>balance = b\<rparr>
                                   else if u = ''bob'' then Some \<lparr>balance = 0\<rparr> else None)\<rparr>"

definition example_store ::
  "rat \<Rightarrow> rat \<Rightarrow> (string \<times> cheque collection) list \<Rightarrow> cheque collection \<Rightarrow> store" where
  "example_store a b privs pub =
     \<lparr>profiles = (\<lambda>u. if u = ''alice'' then Some \<lparr>balance = a\<rparr>
                       else if u = ''bob'' then Some \<lparr>balance = b\<rparr> else None),
      cheques = (\<lambda>u. case map_of privs u of None \<Rightarrow> [] | Some xs \<Rightarrow> xs),
      public_cheques = pub\<rparr>"

definition cheque_of :: "string \<Rightarrow> string \<Rightarrow> rat \<Rightarrow> nat \<Rightarrow> string \<times> cheque" where
  "cheque_of u code a act =
     (u @ ''-'' @ code,
      \<lparr>short_id = code, owner_id = u, amount = a, active = act, anonymous = False\<rparr>)"

text \<open>A very small amount: the double nearest to \<open>1e-15\<close>.\<close>

definition tiny_amount :: rat where
  "tiny_amount = fl (1 / 10 ^ 15)"

text \<open>
  A run of two applications: alice issues a cheque of 20, bob redeems it, alice issues
  a cheque of 10 and deletes it again.
\<close>

definition example_system :: system where
  "example_system =
     \<lparr>clients = [signed_in ''alice'' 50, signed_in ''bob'' 0], firestore = funded_store 50\<rparr>"

definition example_events :: "event list" where
  "example_events =
     [SetCreateAmount 0 (Some 20), CreateCheque 0 (\<lambda>i. 10), ProfileSnapshot 0,
      ChequesSnapshot 0, SetActivateChequeId 1 ''aaaaaaaaaa'', ActivateCheque 1,
      ProfileSnapshot 1, ChequesSnapshot 0, SetCreateAmount 0 (Some 10),
      CreateCheque 0 (\<lambda>i. 11), ProfileSnapshot 0, ChequesSnapshot 0, DeleteCheque 0 0]"

section \<open>Properties\<close>

lemma current_user_Some:
  "current_user c = Some u \<longleftrightarrow> db c \<and> userId c = Some u \<and> u \<noteq> []"
  by (auto simp: current_user_def split: option.splits)

subsection \<open>Rounding to the nearest double\<close>

text \<open>
  \<open>ilog2\<close> is the binary exponent, \<open>fl x\<close> has a significand of at most 53 bits and
  lies within half a unit in the last place of \<open>x\<close>, and rounding keeps the sign.
  The two evaluations are the familiar doubles of 0.1 and of 0.1 + 0.2.
\<close>

lemma pow2_pos: "0 < pow2 k"
  by (simp add: pow2_def)

lemma round_half_even_nonneg: "0 \<le> r \<Longrightarrow> 0 \<le> round_half_even r"
  by (simp add: round_half_even_def Let_def)

lemma fl_nonneg: "0 \<le> x \<Longrightarrow> 0 \<le> fl x"
  by (simp add: fl_def Let_def round_half_even_nonneg pow2_pos less_imp_le)

lemma js_add_nonneg: "0 \<le> x + y \<Longrightarrow> 0 \<le> js_add x y"
  by (simp add: js_add_def fl_nonneg)

lemma pow2_powi: "pow2 k = 2 powi k"
  by (simp add: pow2_def power_int_def power_inverse inverse_eq_divide power_one_over)

lemma pow2_add: "pow2 (j + k) = pow2 j * pow2 k"
  by (simp add: pow2_powi power_int_add)

lemma pow2_1: "pow2 1 = 2"
  by (simp add: pow2_def)

lemma pow2_Suc: "pow2 (k + 1) = 2 * pow2 k"
  by (simp add: pow2_add pow2_1)

lemma pow2_0: "pow2 0 = 1"
  by (simp add: pow2_def)

lemma bitlen_nonneg: "0 \<le> bitlen n"
proof (induction n rule: bitlen.induct)
  case (1 n)
  then show ?case by (subst bitlen.simps) simp
qed

lemma bitlen_pos: "0 < n \<Longrightarrow> 0 < bitlen n"
  using bitlen_nonneg [of "n div 2"] by (subst bitlen.simps) simp

lemma bitlen_bounds:
  "0 < n \<Longrightarrow> 2 ^ nat (bitlen n - 1) \<le> n \<and> n < 2 ^ nat (bitlen n)"
proof (induction n rule: bitlen.induct)
  case (1 n)
  show ?case
  proof (cases "n = 1")
    case True
    have "bitlen 1 = 1"
      by (subst bitlen.simps, subst bitlen.simps) simp
    with True show ?thesis by simp
  next
    case False
    with 1(2) have h: "0 < n div 2" by simp
    with 1 have ih: "2 ^ nat (bitlen (n div 2) - 1) \<le> n div 2" "n div 2 < 2 ^ nat (bitlen (n div 2))"
      by simp_all
    have b: "bitlen n = 1 + bitlen (n div 2)"
      using 1(2) by (subst bitlen.simps) simp
    from bitlen_pos [OF h] have e: "nat (bitlen n - 1) = Suc (nat (bitlen (n div 2) - 1))"
      "nat (bitlen n) = Suc (nat (bitlen (n div 2)))"
      by (simp_all add: b nat_add_distrib)
    from ih(1) have "2 * 2 ^ nat (bitlen (n div 2) - 1) \<le> n" by linarith
    moreover from ih(2) have "n < 2 * 2 ^ nat (bitlen (n div 2))" by linarith
    ultimately show ?thesis by (simp add: e)
  qed
qed

lemma bitlen_pow2_bounds:
  assumes "0 < n"
  shows "pow2 (bitlen n - 1) \<le> of_int n" and "of_int n < pow2 (bitlen n)"
proof -
  from bitlen_bounds [OF assms] have "(2::int) ^ nat (bitlen n - 1) \<le> n" "n < 2 ^ nat (bitlen n)"
    by simp_all
  then have "(of_int ((2::int) ^ nat (bitlen n - 1)) :: rat) \<le> of_int n"
    "(of_int n :: rat) < of_int (2 ^ nat (bitlen n))"
    by (simp_all only: of_int_le_iff of_int_less_iff)
  moreover from bitlen_pos [OF assms] have "0 \<le> bitlen n - 1" "0 \<le> bitlen n" by simp_all
  ultimately show "pow2 (bitlen n - 1) \<le> of_int n" and "of_int n < pow2 (bitlen n)"
    by (simp_all add: pow2_def)
qed
lemma pow2_diff: "pow2 (j - k) * pow2 k = pow2 j"
  using pow2_add [of "j - k" k] by simp

lemma ilog2_bounds:
  assumes "x \<noteq> 0"
  shows "pow2 (ilog2 x) \<le> \<bar>x\<bar> \<and> \<bar>x\<bar> < pow2 (ilog2 x + 1)"
proof -
  obtain p q where pq: "quotient_of \<bar>x\<bar> = (p, q)"
    by (cases "quotient_of \<bar>x\<bar>")
  then have q: "0 < q" and x: "\<bar>x\<bar> = of_int p / of_int q"
    by (simp_all add: quotient_of_denom_pos quotient_of_div)
  from assms have "0 < \<bar>x\<bar>" by simp
  with x q have p: "0 < p"
    by (simp add: zero_less_divide_iff)
  define d where "d = bitlen p - bitlen q"
  have ub: "of_int p < pow2 (d + 1) * of_int q"
  proof -
    have "of_int p < pow2 (bitlen p)"
      by (rule bitlen_pow2_bounds [OF p])
    also have "\<dots> = pow2 (d + 1) * pow2 (bitlen q - 1)"
      using pow2_diff [of "bitlen p" "bitlen q - 1"] by (simp add: d_def algebra_simps)
    also have "\<dots> \<le> pow2 (d + 1) * of_int q"
      using bitlen_pow2_bounds(1) [OF q] pow2_pos [of "d + 1"]
      by (simp add: mult_left_mono less_imp_le)
    finally show ?thesis .
  qed
  have lb: "pow2 (d - 1) * of_int q < of_int p"
  proof -
    have "pow2 (d - 1) * of_int q < pow2 (d - 1) * pow2 (bitlen q)"
      using bitlen_pow2_bounds(2) [OF q] pow2_pos [of "d - 1"]
      by (simp add: mult_strict_left_mono)
    also have "\<dots> = pow2 (bitlen p - 1)"
      using pow2_diff [of "bitlen p - 1" "bitlen q"] by (simp add: d_def algebra_simps)
    also have "\<dots> \<le> of_int p"
      by (rule bitlen_pow2_bounds [OF p])
    finally show ?thesis .
  qed
  from ub q have upper: "\<bar>x\<bar> < pow2 (d + 1)"
    by (simp add: x pos_divide_less_eq)
  from lb q have lower: "pow2 (d - 1) < \<bar>x\<bar>"
    by (simp add: x pos_less_divide_eq)
  show ?thesis
  proof (cases "pow2 d \<le> \<bar>x\<bar>")
    case True
    then have "ilog2 x = d" by (simp add: ilog2_def pq d_def Let_def)
    with True upper show ?thesis by simp
  next
    case False
    then have "ilog2 x = d - 1" by (simp add: ilog2_def pq d_def Let_def)
    with False lower show ?thesis by simp
  qed
qed

lemma round_half_even_error: "\<bar>of_int (round_half_even r) - r\<bar> \<le> 1 / 2"
proof -
  have "of_int \<lfloor>r\<rfloor> \<le> r" and "r < of_int \<lfloor>r\<rfloor> + 1"
    by linarith+
  then show ?thesis
    by (auto simp: round_half_even_def Let_def abs_le_iff)
qed

lemma fl_error:
  assumes "x \<noteq> 0"
  shows "\<bar>fl x - x\<bar> \<le> pow2 (ilog2 x - 53)"
proof -
  define u where "u = pow2 (ilog2 x - 52)"
  have u: "0 < u" by (simp add: u_def pow2_pos)
  have half: "pow2 (ilog2 x - 53) = u / 2"
    using pow2_Suc [of "ilog2 x - 53"] by (simp add: u_def)
  have "fl x - x = (of_int (round_half_even (x / u)) - x / u) * u"
    using assms u by (simp add: fl_def u_def Let_def algebra_simps)
  then have "\<bar>fl x - x\<bar> = \<bar>of_int (round_half_even (x / u)) - x / u\<bar> * u"
    using u by (simp add: abs_mult)
  also have "\<dots> \<le> (1 / 2) * u"
    using u round_half_even_error [of "x / u"] by (intro mult_right_mono) simp_all
  finally show ?thesis by (simp add: half)
qed

lemma fl_significand:
  assumes "x \<noteq> 0"
  shows "fl x = of_int (round_half_even (x / pow2 (ilog2 x - 52))) * pow2 (ilog2 x - 52) \<and>
         \<bar>round_half_even (x / pow2 (ilog2 x - 52))\<bar> \<le> 2 ^ 53"
proof -
  define u where "u = pow2 (ilog2 x - 52)"
  define r where "r = x / u"
  have u: "0 < u" by (simp add: u_def pow2_pos)
  have "pow2 (ilog2 x + 1) = pow2 53 * u"
    using pow2_add [of 53 "ilog2 x - 52"] by (simp add: u_def add.commute)
  with ilog2_bounds [OF assms] have "\<bar>x\<bar> < pow2 53 * u" by simp
  with u have "\<bar>r\<bar> < pow2 53"
    by (simp add: r_def pos_divide_less_eq)
  then have r: "- (2 ^ 53) < r" "r < 2 ^ 53"
    by (simp_all add: pow2_def abs_less_iff)
  define F where "F = \<lfloor>r\<rfloor>"
  have "of_int F \<le> r" and "r < of_int F + 1"
    unfolding F_def by linarith+
  with r have "(of_int F :: rat) < of_int (2 ^ 53)" and "(of_int (- (2 ^ 53)) :: rat) < of_int (F + 1)"
    by simp_all
  then have "F < 2 ^ 53" and "- (2 ^ 53) < F + 1"
    by (simp_all only: of_int_less_iff)
  moreover have "round_half_even r = F \<or> round_half_even r = F + 1"
    by (simp add: round_half_even_def Let_def F_def)
  ultimately have "\<bar>round_half_even r\<bar> \<le> 2 ^ 53"
    by linarith
  then show ?thesis
    using assms by (simp add: fl_def Let_def u_def r_def)
qed

lemma double_of_one_tenth: "fl (1 / 10) = 3602879701896397 / 36028797018963968"
  by code_simp

lemma one_tenth_plus_two_tenths:
  "js_add (fl (1 / 10)) (fl (2 / 10)) = 1351079888211149 / 4503599627370496 \<and>
   js_add (fl (1 / 10)) (fl (2 / 10)) \<noteq> fl (3 / 10)"
  by code_simp

subsection \<open>Collections\<close>

lemma map_of_map_doc:
  "map_of (map (\<lambda>(k', d'). if k' = k then (k', f d') else (k', d')) xs) j =
     (if j = k then map_option f (map_of xs k) else map_of xs j)"
  by (induction xs) auto

lemma doc_exists_map_of: "doc_exists k xs \<longleftrightarrow> map_of xs k \<noteq> None"
  unfolding doc_exists_def by (induction xs) auto

lemma map_of_setDoc: "map_of (setDoc k d xs) j = (if j = k then Some d else map_of xs j)"
proof (cases "doc_exists k xs")
  case True
  then obtain e where "map_of xs k = Some e" by (auto simp: doc_exists_map_of)
  with True show ?thesis by (simp add: setDoc_def map_of_map_doc)
next
  case False
  then have "map_of xs k = None" by (simp add: doc_exists_map_of)
  with False show ?thesis by (simp add: setDoc_def map_add_def split: option.splits)
qed

lemma length_setDoc:
  "length (setDoc k d xs) = (if doc_exists k xs then length xs else Suc (length xs))"
  by (simp add: setDoc_def)

lemma handleCreateCheque_valid:
  assumes "current_user c = Some u" and "createAmount c = Some a" and "0 < a"
    and "a \<le> userBalance c"
  shows "handleCreateCheque rnd c st =
     (let k = u @ ''-'' @ generateShortId rnd;
          d = \<lparr>short_id = generateShortId rnd, owner_id = u, amount = a, active = 1,
               anonymous = createIsAnonymous c\<rparr>;
          (c1, st1) = changeBalance (- a) c st
      in (showMessage (ChequeCreated a (generateShortId rnd))
            (c1\<lparr>createAmount := None, createIsAnonymous := False\<rparr>),
          st1\<lparr>cheques := (cheques st1)(u := setDoc k d (cheques st1 u)),
              public_cheques := setDoc k d (public_cheques st1)\<rparr>))"
  using assms by (simp add: handleCreateCheque_def Let_def split_def)

lemma changeBalance_profile:
  assumes "current_user c = Some u" and "profiles st u = Some p"
  shows "changeBalance amt c st =
     (showMessage (BalanceUpdated amt) c,
      st\<lparr>profiles := (profiles st)(u \<mapsto> p\<lparr>balance := js_add (userBalance c) amt\<rparr>)\<rparr>)"
  using assms by (simp add: changeBalance_def)

subsection \<open>Evaluations used by the examples\<close>

lemma short_id_all_a: "generateShortId (\<lambda>i. 10) = ''aaaaaaaaaa''"
  by code_simp

lemma js_add_50_minus_20: "js_add 50 (- 20) = 30"
  by code_simp


lemma fl_30: "fl (50 - 20) = 50 - 20"
  by code_simp

lemma tiny_amount_bounds: "0 < tiny_amount \<and> tiny_amount \<le> 100"
  by code_simp

lemma js_add_100_tiny: "js_add 100 (- tiny_amount) = 100"
  by code_simp

lemma js_add_50_minus_10: "js_add 50 (- 10) = 40"
  by code_simp

lemma js_add_50_minus_30: "js_add 50 (- 30) = 20"
  by code_simp


subsection \<open>Issuing a cheque\<close>

text \<open>
  Claim C1, as amended. For every amount with \<open>0 < amount \<le> userBalance\<close>, where
  \<open>userBalance\<close> is the balance the issuing application holds (its last snapshot of the
  owner's stored balance), issuing (\<open>handleCreateCheque\<close>) sets the owner's stored balance
  to the double nearest to \<open>userBalance - amount\<close> and creates one cheque in the active
  state carrying that amount. The balance goes down by exactly the amount when the
  balance held is the stored one and the difference needs no rounding. The cheque is
  stored under the id \<open>userId-code\<close> in the owner's collection and in the public one,
  nothing else changes, and the public collection grows by one document unless that id
  was already in use.
\<close>

theorem issue_writes_rounded_cached_difference:
  assumes "current_user c = Some u" and "createAmount c = Some a" and "0 < a"
    and "a \<le> userBalance c" and "profiles st u = Some p"
  shows "case handleCreateCheque rnd c st of (c', st') \<Rightarrow>
     (let k = u @ ''-'' @ generateShortId rnd;
          d = \<lparr>short_id = generateShortId rnd, owner_id = u, amount = a, active = 1,
               anonymous = createIsAnonymous c\<rparr>
      in message c' = Some (ChequeCreated a (generateShortId rnd)) \<and>
         st' = st\<lparr>profiles := (profiles st)(u \<mapsto> p\<lparr>balance := fl (userBalance c - a)\<rparr>),
                  cheques := (cheques st)(u := setDoc k d (cheques st u)),
                  public_cheques := setDoc k d (public_cheques st)\<rparr> \<and>
         (balance p = userBalance c \<and> fl (balance p - a) = balance p - a \<longrightarrow>
            profiles st' u = Some (p\<lparr>balance := balance p - a\<rparr>)) \<and>
         map_of (public_cheques st') k = Some d \<and>
         map_of (cheques st' u) k = Some d \<and>
         (\<forall>j. j \<noteq> k \<longrightarrow> map_of (public_cheques st') j = map_of (public_cheques st) j) \<and>
         length (public_cheques st') =
           (if doc_exists k (public_cheques st) then length (public_cheques st)
            else Suc (length (public_cheques st))))"
  using assms
  by (auto simp: handleCreateCheque_valid changeBalance_profile Let_def showMessage_def
      map_of_setDoc length_setDoc js_add_def)

theorem issue_writes_rounded_cached_difference_witness:
  "current_user ((signed_in ''alice'' 50)\<lparr>createAmount := Some 20\<rparr>) = Some ''alice'' \<and>
   profiles (funded_store 50) ''alice'' = Some \<lparr>balance = 50\<rparr> \<and>
   fl (50 - 20) = 50 - 20 \<and>
   (case handleCreateCheque (\<lambda>i. 10) ((signed_in ''alice'' 50)\<lparr>createAmount := Some 20\<rparr>)
           (funded_store 50) of
      (c', st') \<Rightarrow>
        message c' = Some (ChequeCreated 20 ''aaaaaaaaaa'') \<and>
        profiles st' ''alice'' = Some \<lparr>balance = 30\<rparr> \<and>
        public_cheques st' = [cheque_of ''alice'' ''aaaaaaaaaa'' 20 1] \<and>
        cheques st' ''alice'' = [cheque_of ''alice'' ''aaaaaaaaaa'' 20 1])"
  using issue_writes_rounded_cached_difference
          [of "(signed_in ''alice'' 50)\<lparr>createAmount := Some 20\<rparr>" "''alice''" 20
              "funded_store 50" "\<lparr>balance = 50\<rparr>" "\<lambda>i. 10"] fl_30
  by (simp add: split_def Let_def current_user_def signed_in_def initial_client_def
      funded_store_def empty_store_def cheque_of_def setDoc_def doc_exists_def
      short_id_all_a)

text \<open>
  The debit is not always the amount. With a balance of 100 and an amount of \<open>1e-15\<close> the
  cheque is created and the balance stays 100, because \<open>100 - 1e-15\<close> rounds to 100. And
  an application that still holds 50 while the store holds 20 issues a cheque of 10 and
  thereby sets the stored balance to 40.
\<close>

theorem issue_debit_is_not_exact:
  "0 < tiny_amount \<and> tiny_amount \<le> 100 \<and>
   (case handleCreateCheque (\<lambda>i. 10)
           ((signed_in ''alice'' 100)\<lparr>createAmount := Some (tiny_amount)\<rparr>)
           (funded_store 100) of
      (c', st') \<Rightarrow>
        message c' = Some (ChequeCreated (tiny_amount) ''aaaaaaaaaa'') \<and>
        profiles st' ''alice'' = Some \<lparr>balance = 100\<rparr> \<and>
        public_cheques st' = [cheque_of ''alice'' ''aaaaaaaaaa'' (tiny_amount) 1]) \<and>
   (case handleCreateCheque (\<lambda>i. 10) ((signed_in ''alice'' 50)\<lparr>createAmount := Some 10\<rparr>)
           (funded_store 20) of
      (c', st') \<Rightarrow>
        message c' = Some (ChequeCreated 10 ''aaaaaaaaaa'') \<and>
        profiles (funded_store 20) ''alice'' = Some \<lparr>balance = 20\<rparr> \<and>
        profiles st' ''alice'' = Some \<lparr>balance = 40\<rparr>)"
  using tiny_amount_bounds
  by (simp add: handleCreateCheque_def changeBalance_def current_user_def signed_in_def
      initial_client_def funded_store_def empty_store_def cheque_of_def setDoc_def
      doc_exists_def showMessage_def Let_def short_id_all_a js_add_100_tiny
      js_add_50_minus_10)

text \<open>
  Claim C6, as amended. For every amount greater than \<open>userBalance\<close>, the balance the
  issuing application holds (its last snapshot of the owner's stored balance), issuing
  fails with the insufficient-funds message and nothing changes: no debit, no cheque.
\<close>

theorem issue_insufficient_funds:
  assumes "current_user c = Some u" and "createAmount c = Some a" and "0 < a"
    and "userBalance c < a"
  shows "handleCreateCheque rnd c st = (showMessage InsufficientFunds c, st)"
  using assms by (simp add: handleCreateCheque_def)

theorem issue_insufficient_funds_witness:
  "current_user ((signed_in ''alice'' 5)\<lparr>createAmount := Some 10\<rparr>) = Some ''alice'' \<and>
   handleCreateCheque (\<lambda>i. 10) ((signed_in ''alice'' 5)\<lparr>createAmount := Some 10\<rparr>)
      (funded_store 5) =
     (showMessage InsufficientFunds ((signed_in ''alice'' 5)\<lparr>createAmount := Some 10\<rparr>),
      funded_store 5)"
  using issue_insufficient_funds
          [of "(signed_in ''alice'' 5)\<lparr>createAmount := Some 10\<rparr>" "''alice''" 10 "\<lambda>i. 10"
              "funded_store 5"]
  by (simp add: current_user_def signed_in_def initial_client_def)

text \<open>
  The check reads the balance the application holds, not the stored one. An application
  that still holds 50 while the store holds 20 issues a cheque of 30; two applications
  of one user, both holding 50, reach this by issuing 30 each.
\<close>

theorem issue_beyond_stored_balance:
  "profiles (funded_store 20) ''alice'' = Some \<lparr>balance = 20\<rparr> \<and> (20 :: rat) < 30 \<and>
   (case handleCreateCheque (\<lambda>i. 10) ((signed_in ''alice'' 50)\<lparr>createAmount := Some 30\<rparr>)
           (funded_store 20) of
      (c', st') \<Rightarrow>
        message c' = Some (ChequeCreated 30 ''aaaaaaaaaa'') \<and>
        profiles st' ''alice'' = Some \<lparr>balance = 20\<rparr> \<and>
        public_cheques st' = [cheque_of ''alice'' ''aaaaaaaaaa'' 30 1])"
  by (simp add: handleCreateCheque_def changeBalance_def current_user_def signed_in_def
      initial_client_def funded_store_def empty_store_def cheque_of_def setDoc_def
      doc_exists_def showMessage_def Let_def short_id_all_a js_add_50_minus_30)

lemma stale_issue_reachable:
  "(let s = run [SetCreateAmount 0 (Some 30), CreateCheque 0 (\<lambda>i. 10),
                 SetCreateAmount 1 (Some 30), CreateCheque 1 (\<lambda>i. 11)]
                \<lparr>clients = [signed_in ''alice'' 50, signed_in ''alice'' 50],
                 firestore = funded_store 50\<rparr>
    in message (clients s ! 1) = Some (ChequeCreated 30 ''bbbbbbbbbb'') \<and>
       map_option balance (profiles (firestore s) ''alice'') = Some 20 \<and>
       public_cheques (firestore s) =
         [cheque_of ''alice'' ''aaaaaaaaaa'' 30 1, cheque_of ''alice'' ''bbbbbbbbbb'' 30 1])"
  by code_simp

subsection \<open>Redeeming a cheque\<close>

lemma find_active_Some:
  "find_active xs = Some (k, ch) \<Longrightarrow> (k, ch) \<in> set xs \<and> active ch = 1"
  by (induction xs rule: find_active.induct) (auto split: if_splits)

lemma find_active_None: "find_active xs = None \<longleftrightarrow> (\<forall>(k, d) \<in> set xs. active d \<noteq> 1)"
  by (induction xs rule: find_active.induct) auto


lemma query_short_id_subset: "(k, ch) \<in> set (query_short_id code xs) \<Longrightarrow> (k, ch) \<in> set xs"
  by (simp add: query_short_id_def)

lemma doc_existsI: "(k, d) \<in> set xs \<Longrightarrow> doc_exists k xs"
  by (force simp: doc_exists_def)

lemma handleActivateCheque_found:
  assumes "current_user c = Some u" and "activateChequeId c \<noteq> []"
    and "find_active (query_short_id (activateChequeId c) (public_cheques st)) = Some (k, ch)"
  shows "handleActivateCheque c st =
     (if owner_id ch = u then (showMessage CannotActivateOwn c, st)
      else
        (let st1 = st\<lparr>public_cheques :=
                     map (\<lambda>(j, d). if j = k then (j, deactivate d) else (j, d)) (public_cheques st)\<rparr>
         in case updateDoc k deactivate (cheques st (owner_id ch)) of
              None \<Rightarrow> (showMessage ActivateError c, st1)
            | Some priv \<Rightarrow>
                (let (c3, st3) = changeBalance (amount ch) c
                                   (st1\<lparr>cheques := (cheques st)(owner_id ch := priv)\<rparr>)
                 in (showMessage (ChequeActivated (amount ch) (anonymous ch))
                       (c3\<lparr>activateChequeId := []\<rparr>), st3))))"
proof -
  from assms(3) have m: "(k, ch) \<in> set (query_short_id (activateChequeId c) (public_cheques st))"
    by (simp add: find_active_Some)
  then have ne: "query_short_id (activateChequeId c) (public_cheques st) \<noteq> []"
    by auto
  from m have "doc_exists k (public_cheques st)"
    by (blast intro: doc_existsI query_short_id_subset)
  then have upd: "updateDoc k deactivate (public_cheques st) =
      Some (map (\<lambda>(j, d). if j = k then (j, deactivate d) else (j, d)) (public_cheques st))"
    by (simp add: updateDoc_def)
  show ?thesis
    using assms ne upd
    by (simp add: handleActivateCheque_def Let_def split: option.split)
qed

lemma handleActivateCheque_success:
  assumes "current_user c = Some u" and "activateChequeId c \<noteq> []"
    and "find_active (query_short_id (activateChequeId c) (public_cheques st)) = Some (k, ch)"
    and "owner_id ch \<noteq> u" and "doc_exists k (cheques st (owner_id ch))"
    and "profiles st u = Some p"
  shows "handleActivateCheque c st =
     (c\<lparr>activateChequeId := [], message := Some (ChequeActivated (amount ch) (anonymous ch))\<rparr>,
      st\<lparr>public_cheques :=
            map (\<lambda>(j, d). if j = k then (j, deactivate d) else (j, d)) (public_cheques st),
          cheques := (cheques st)(owner_id ch :=
            map (\<lambda>(j, d). if j = k then (j, deactivate d) else (j, d)) (cheques st (owner_id ch))),
          profiles := (profiles st)(u \<mapsto> p\<lparr>balance := js_add (userBalance c) (amount ch)\<rparr>)\<rparr>)"
  using assms
  by (simp add: handleActivateCheque_found updateDoc_def changeBalance_def Let_def showMessage_def)




lemma js_add_0_20: "js_add 0 20 = 20"
  by code_simp

text \<open>
  Claim C2, as amended. When the code resolves to an active cheque of another user, when
  the owner's copy of the cheque exists, and when the balance the redeemer's application
  holds is the stored one, redeeming (\<open>handleActivateCheque\<close>) sets \<open>active\<close> to 0 in the
  public and in the owner's copy and credits the redeemer's balance with the cheque's
  amount; nothing else changes. These are three separate writes to the store.
\<close>

theorem redeem_deactivates_and_credits:
  assumes "current_user c = Some u" and "activateChequeId c \<noteq> []"
    and "find_active (query_short_id (activateChequeId c) (public_cheques st)) = Some (k, ch)"
    and "owner_id ch \<noteq> u" and "doc_exists k (cheques st (owner_id ch))"
    and "profiles st u = Some p" and "balance p = userBalance c"
  shows "case handleActivateCheque c st of (c', st') \<Rightarrow>
     message c' = Some (ChequeActivated (amount ch) (anonymous ch)) \<and>
     st' = st\<lparr>public_cheques :=
                map (\<lambda>(j, d). if j = k then (j, deactivate d) else (j, d)) (public_cheques st),
              cheques := (cheques st)(owner_id ch :=
                map (\<lambda>(j, d). if j = k then (j, deactivate d) else (j, d))
                  (cheques st (owner_id ch))),
              profiles := (profiles st)(u \<mapsto> p\<lparr>balance := js_add (balance p) (amount ch)\<rparr>)\<rparr> \<and>
     (k, deactivate ch) \<in> set (public_cheques st') \<and>
     find_active (filter (\<lambda>(j, d). j = k) (public_cheques st')) = None"
proof -
  from assms(3) have m: "(k, ch) \<in> set (public_cheques st)"
    by (blast dest: find_active_Some query_short_id_subset)
  have gone: "find_active (filter (\<lambda>(j, d). j = k)
      (map (\<lambda>(j, d). if j = k then (j, deactivate d) else (j, d)) xs)) = None" for xs
    by (induction xs) (auto simp: deactivate_def split: if_splits)
  from m have "(k, deactivate ch) \<in>
      set (map (\<lambda>(j, d). if j = k then (j, deactivate d) else (j, d)) (public_cheques st))"
    by force
  with gone show ?thesis
    using assms by (simp add: handleActivateCheque_success)
qed

theorem redeem_deactivates_and_credits_witness:
  "current_user ((signed_in ''bob'' 0)\<lparr>activateChequeId := ''aaaaaaaaaa''\<rparr>) = Some ''bob'' \<and>
   find_active (query_short_id ''aaaaaaaaaa'' [cheque_of ''alice'' ''aaaaaaaaaa'' 20 1]) =
     Some (cheque_of ''alice'' ''aaaaaaaaaa'' 20 1) \<and>
   (case handleActivateCheque ((signed_in ''bob'' 0)\<lparr>activateChequeId := ''aaaaaaaaaa''\<rparr>)
           (example_store 30 0 [(''alice'', [cheque_of ''alice'' ''aaaaaaaaaa'' 20 1])]
              [cheque_of ''alice'' ''aaaaaaaaaa'' 20 1]) of
      (c', st') \<Rightarrow>
        message c' = Some (ChequeActivated 20 False) \<and>
        profiles st' ''bob'' = Some \<lparr>balance = 20\<rparr> \<and>
        profiles st' ''alice'' = Some \<lparr>balance = 30\<rparr> \<and>
        public_cheques st' = [cheque_of ''alice'' ''aaaaaaaaaa'' 20 0] \<and>
        cheques st' ''alice'' = [cheque_of ''alice'' ''aaaaaaaaaa'' 20 0])"
  using redeem_deactivates_and_credits
          [of "(signed_in ''bob'' 0)\<lparr>activateChequeId := ''aaaaaaaaaa''\<rparr>" "''bob''"
              "example_store 30 0 [(''alice'', [cheque_of ''alice'' ''aaaaaaaaaa'' 20 1])]
                 [cheque_of ''alice'' ''aaaaaaaaaa'' 20 1]"
              "fst (cheque_of ''alice'' ''aaaaaaaaaa'' 20 1)"
              "snd (cheque_of ''alice'' ''aaaaaaaaaa'' 20 1)" "\<lparr>balance = 0\<rparr>"]
  by (simp add: split_def current_user_def signed_in_def initial_client_def example_store_def
      cheque_of_def query_short_id_def doc_exists_def deactivate_def js_add_0_20)

text \<open>
  The flip of the cheque and the credit are not one atomic unit: when the second write is
  rejected (here the owner's copy is missing), the public cheque has already been
  deactivated, the redeemer is credited nothing, and the cheque can no longer be redeemed.
\<close>

theorem redeem_not_atomic:
  "case handleActivateCheque ((signed_in ''bob'' 0)\<lparr>activateChequeId := ''aaaaaaaaaa''\<rparr>)
          (example_store 30 0 [] [cheque_of ''alice'' ''aaaaaaaaaa'' 20 1]) of
     (c', st') \<Rightarrow>
       message c' = Some ActivateError \<and>
       public_cheques st' = [cheque_of ''alice'' ''aaaaaaaaaa'' 20 0] \<and>
       profiles st' ''bob'' = Some \<lparr>balance = 0\<rparr>"
  by (simp add: handleActivateCheque_def current_user_def signed_in_def initial_client_def
      example_store_def cheque_of_def query_short_id_def updateDoc_def doc_exists_def
      deactivate_def showMessage_def Let_def)

text \<open>
  Claim C3, as amended. For every code that resolves to no active cheque, redeeming fails
  and changes nothing. A code that no cheque carries gives the message "does not exist";
  a code whose cheques have all been activated or deleted gives the message "was
  activated or deleted" (an activated and a deleted cheque are both stored with
  \<open>active = 0\<close>, so these two cases give the same outcome).
\<close>

theorem redeem_without_active_cheque:
  assumes "current_user c = Some u" and "activateChequeId c \<noteq> []"
    and "find_active (query_short_id (activateChequeId c) (public_cheques st)) = None"
  shows "handleActivateCheque c st =
     (showMessage (if query_short_id (activateChequeId c) (public_cheques st) = []
                   then ChequeDoesNotExist else ChequeActivatedOrDeleted) c, st)"
  using assms by (simp add: handleActivateCheque_def Let_def)

theorem redeem_without_active_cheque_witness:
  "current_user ((signed_in ''bob'' 0)\<lparr>activateChequeId := ''aaaaaaaaaa''\<rparr>) = Some ''bob'' \<and>
   find_active (query_short_id ''aaaaaaaaaa'' [cheque_of ''alice'' ''aaaaaaaaaa'' 20 0]) = None \<and>
   handleActivateCheque ((signed_in ''bob'' 0)\<lparr>activateChequeId := ''aaaaaaaaaa''\<rparr>)
      (example_store 30 0 [(''alice'', [cheque_of ''alice'' ''aaaaaaaaaa'' 20 0])]
         [cheque_of ''alice'' ''aaaaaaaaaa'' 20 0]) =
     (showMessage ChequeActivatedOrDeleted
        ((signed_in ''bob'' 0)\<lparr>activateChequeId := ''aaaaaaaaaa''\<rparr>),
      example_store 30 0 [(''alice'', [cheque_of ''alice'' ''aaaaaaaaaa'' 20 0])]
         [cheque_of ''alice'' ''aaaaaaaaaa'' 20 0])"
  using redeem_without_active_cheque
          [of "(signed_in ''bob'' 0)\<lparr>activateChequeId := ''aaaaaaaaaa''\<rparr>" "''bob''"
              "example_store 30 0 [(''alice'', [cheque_of ''alice'' ''aaaaaaaaaa'' 20 0])]
                 [cheque_of ''alice'' ''aaaaaaaaaa'' 20 0]"]
  by (simp add: current_user_def signed_in_def initial_client_def example_store_def
      cheque_of_def query_short_id_def)

text \<open>
  A code that never existed and a code that was already used give different messages.
\<close>

theorem redeem_unknown_and_spent_codes_differ:
  "message (fst (handleActivateCheque ((signed_in ''bob'' 0)\<lparr>activateChequeId := ''aaaaaaaaaa''\<rparr>)
      (example_store 30 0 [] []))) = Some ChequeDoesNotExist \<and>
   message (fst (handleActivateCheque ((signed_in ''bob'' 0)\<lparr>activateChequeId := ''aaaaaaaaaa''\<rparr>)
      (example_store 30 0 [(''alice'', [cheque_of ''alice'' ''aaaaaaaaaa'' 20 0])]
         [cheque_of ''alice'' ''aaaaaaaaaa'' 20 0]))) = Some ChequeActivatedOrDeleted \<and>
   ChequeDoesNotExist \<noteq> ChequeActivatedOrDeleted"
  by (simp add: handleActivateCheque_def current_user_def signed_in_def initial_client_def
      example_store_def cheque_of_def query_short_id_def showMessage_def Let_def)



text \<open>
  In particular the owner is refused whenever every active cheque that carries the code
  is her own, as when no other active cheque shares the code.
\<close>

lemma own_code_is_refused:
  assumes "current_user c = Some u" and "activateChequeId c \<noteq> []"
    and "(k, ch) \<in> set (public_cheques st)" and "active ch = 1"
    and "short_id ch = activateChequeId c"
    and own: "\<forall>(j, d) \<in> set (public_cheques st).
           short_id d = activateChequeId c \<and> active d = 1 \<longrightarrow> owner_id d = u"
  shows "handleActivateCheque c st = (showMessage CannotActivateOwn c, st)"
proof -
  let ?docs = "query_short_id (activateChequeId c) (public_cheques st)"
  from assms(3-5) have "(k, ch) \<in> set ?docs"
    by (simp add: query_short_id_def)
  with assms(4) have "find_active ?docs \<noteq> None"
    by (auto simp: find_active_None)
  then obtain k' ch' where fa: "find_active ?docs = Some (k', ch')"
    by (cases "find_active ?docs") auto
  then have "(k', ch') \<in> set ?docs" and "active ch' = 1"
    by (simp_all add: find_active_Some)
  then have "(k', ch') \<in> set (public_cheques st)" and "short_id ch' = activateChequeId c"
    by (simp_all add: query_short_id_def)
  with own \<open>active ch' = 1\<close> have "owner_id ch' = u"
    by auto
  with assms(1,2) fa show ?thesis
    by (simp add: handleActivateCheque_found)
qed


lemma colliding_redeem_reachable:
  "(let s = run [SetCreateAmount 1 (Some 5), CreateCheque 1 (\<lambda>i. 10),
                 SetCreateAmount 0 (Some 20), CreateCheque 0 (\<lambda>i. 10), ProfileSnapshot 0,
                 SetActivateChequeId 0 ''aaaaaaaaaa'', ActivateCheque 0]
                \<lparr>clients = [signed_in ''alice'' 30, signed_in ''bob'' 10],
                 firestore = example_store 30 10 [] []\<rparr>
    in message (clients s ! 0) = Some (ChequeActivated 5 False) \<and>
       map_option balance (profiles (firestore s) ''alice'') = Some 15 \<and>
       public_cheques (firestore s) =
         [cheque_of ''bob'' ''aaaaaaaaaa'' 5 0, cheque_of ''alice'' ''aaaaaaaaaa'' 20 1])"
  by code_simp



subsection \<open>Deleting a cheque, and colliding codes\<close>


lemma js_add_30_20: "js_add 30 20 = 50"
  by code_simp

lemma setDoc_mem: "(k, d) \<in> set (setDoc k d xs)"
proof (cases "doc_exists k xs")
  case True
  then obtain e where "(k, e) \<in> set xs"
    by (auto simp: doc_exists_def)
  then have "(case (k, e) of (k', d') \<Rightarrow> if k' = k then (k', d) else (k', d'))
      \<in> (\<lambda>(k', d'). if k' = k then (k', d) else (k', d')) ` set xs"
    by (rule imageI)
  with True show ?thesis by (simp add: setDoc_def)
next
  case False
  then show ?thesis by (simp add: setDoc_def)
qed

lemma setDoc_others:
  assumes "(j, e) \<in> set xs" and "j \<noteq> k"
  shows "(j, e) \<in> set (setDoc k d xs)"
proof -
  from assms(1) have "(case (j, e) of (k', d') \<Rightarrow> if k' = k then (k', d) else (k', d'))
      \<in> (\<lambda>(k', d'). if k' = k then (k', d) else (k', d')) ` set xs"
    by (rule imageI)
  with assms show ?thesis by (simp add: setDoc_def)
qed

lemma length_generateShortId: "length (generateShortId rnd) = 10"
  by (simp add: generateShortId_def)

text \<open>
  Deleting addresses the cheque in the caller's own collection: a caller under whose
  account no copy of the cheque is stored gets the general deletion error, and nothing
  changes.
\<close>

lemma cancel_without_own_copy_fails:
  assumes "current_user c = Some u" and "\<not> doc_exists cid (cheques st u)"
  shows "handleDeleteCheque (cid, ch) c st = (showMessage DeleteError c, st)"
  using assms by (simp add: handleDeleteCheque_def updateDoc_def)

lemma cancel_without_own_copy_fails_example:
  "current_user (signed_in ''bob'' 0) = Some ''bob'' \<and>
   \<not> doc_exists ''alice-aaaaaaaaaa''
       (cheques (example_store 30 0 [(''alice'', [cheque_of ''alice'' ''aaaaaaaaaa'' 20 1])]
          [cheque_of ''alice'' ''aaaaaaaaaa'' 20 1]) ''bob'') \<and>
   handleDeleteCheque (cheque_of ''alice'' ''aaaaaaaaaa'' 20 1) (signed_in ''bob'' 0)
      (example_store 30 0 [(''alice'', [cheque_of ''alice'' ''aaaaaaaaaa'' 20 1])]
         [cheque_of ''alice'' ''aaaaaaaaaa'' 20 1]) =
     (showMessage DeleteError (signed_in ''bob'' 0),
      example_store 30 0 [(''alice'', [cheque_of ''alice'' ''aaaaaaaaaa'' 20 1])]
         [cheque_of ''alice'' ''aaaaaaaaaa'' 20 1])"
  using cancel_without_own_copy_fails
          [of "signed_in ''bob'' 0" "''bob''" "''alice-aaaaaaaaaa''"
              "example_store 30 0 [(''alice'', [cheque_of ''alice'' ''aaaaaaaaaa'' 20 1])]
                 [cheque_of ''alice'' ''aaaaaaaaaa'' 20 1]"
              "snd (cheque_of ''alice'' ''aaaaaaaaaa'' 20 1)"]
  by (simp add: current_user_def signed_in_def initial_client_def example_store_def
      cheque_of_def doc_exists_def)

text \<open>
  Claim C5. Deleting must fail, and change nothing, for a caller who is not the owner
  and for a cheque that is no longer active. The confirmed action of
  \<open>handleDeleteCheque\<close> never reads the \<open>active\<close> field, and here it does not fail: the
  owner's application still lists a cheque of 20 that another user has redeemed, deleting
  it succeeds and pays the 20 back to the owner, who holds 50 afterwards while the
  redeemer keeps the 20. An issue, a redemption and a deletion from the list that has
  not been refreshed lead there.
\<close>

theorem cancel_of_redeemed_cheque_refunds:
  "case handleDeleteCheque (cheque_of ''alice'' ''aaaaaaaaaa'' 20 1) (signed_in ''alice'' 30)
          (example_store 30 20 [(''alice'', [cheque_of ''alice'' ''aaaaaaaaaa'' 20 0])]
             [cheque_of ''alice'' ''aaaaaaaaaa'' 20 0]) of
     (c', st') \<Rightarrow>
       message c' = Some (ChequeDeleted ''aaaaaaaaaa'' 20) \<and>
       profiles st' ''alice'' = Some \<lparr>balance = 50\<rparr> \<and>
       profiles st' ''bob'' = Some \<lparr>balance = 20\<rparr>"
  by (simp add: handleDeleteCheque_def changeBalance_def current_user_def signed_in_def
      initial_client_def example_store_def cheque_of_def updateDoc_def doc_exists_def
      deactivate_def showMessage_def Let_def js_add_30_20)

lemma double_refund_reachable:
  "(let s = run [SetCreateAmount 0 (Some 20), CreateCheque 0 (\<lambda>i. 10), ProfileSnapshot 0,
                 ChequesSnapshot 0, SetActivateChequeId 1 ''aaaaaaaaaa'', ActivateCheque 1,
                 DeleteCheque 0 0] example_system
    in message (clients s ! 0) = Some (ChequeDeleted ''aaaaaaaaaa'' 20) \<and>
       map_option balance (profiles (firestore s) ''alice'') = Some 50 \<and>
       map_option balance (profiles (firestore s) ''bob'') = Some 20)"
  by code_simp

text \<open>
  Claim C8, as amended. Issuing generates one code and uses it: there is no check for a
  collision, no retry and no failure for lack of a free code. For every store and every
  valid amount within the balance it succeeds with the generated code and stores the
  cheque under the id \<open>userId-code\<close>; every public document with another id stays as it
  is, also an active cheque that carries the same code.
\<close>

theorem issue_commits_the_generated_code:
  assumes "current_user c = Some u" and "createAmount c = Some a" and "0 < a"
    and "a \<le> userBalance c"
  shows "case handleCreateCheque rnd c st of (c', st') \<Rightarrow>
     message c' = Some (ChequeCreated a (generateShortId rnd)) \<and>
     (u @ ''-'' @ generateShortId rnd,
      \<lparr>short_id = generateShortId rnd, owner_id = u, amount = a, active = 1,
       anonymous = createIsAnonymous c\<rparr>) \<in> set (public_cheques st') \<and>
     (\<forall>(j, d) \<in> set (public_cheques st).
        j \<noteq> u @ ''-'' @ generateShortId rnd \<longrightarrow> (j, d) \<in> set (public_cheques st'))"
proof -
  have pub: "public_cheques (snd (changeBalance x c st)) = public_cheques st" for x
    by (simp add: changeBalance_def split: option.split)
  show ?thesis
    using assms
    by (auto simp: handleCreateCheque_valid Let_def split_def showMessage_def pub setDoc_mem
        intro: setDoc_others)
qed

theorem issue_commits_the_generated_code_witness:
  "current_user ((signed_in ''alice'' 50)\<lparr>createAmount := Some 20\<rparr>) = Some ''alice'' \<and>
   (case handleCreateCheque (\<lambda>i. 10) ((signed_in ''alice'' 50)\<lparr>createAmount := Some 20\<rparr>)
           (example_store 50 0 [(''bob'', [cheque_of ''bob'' ''aaaaaaaaaa'' 5 1])]
              [cheque_of ''bob'' ''aaaaaaaaaa'' 5 1]) of
      (c', st') \<Rightarrow>
        message c' = Some (ChequeCreated 20 ''aaaaaaaaaa'') \<and>
        cheque_of ''alice'' ''aaaaaaaaaa'' 20 1 \<in> set (public_cheques st') \<and>
        cheque_of ''bob'' ''aaaaaaaaaa'' 5 1 \<in> set (public_cheques st'))"
  using issue_commits_the_generated_code
          [of "(signed_in ''alice'' 50)\<lparr>createAmount := Some 20\<rparr>" "''alice''" 20
              "\<lambda>i. 10" "example_store 50 0 [(''bob'', [cheque_of ''bob'' ''aaaaaaaaaa'' 5 1])]
              [cheque_of ''bob'' ''aaaaaaaaaa'' 5 1]"]
  by (simp add: split_def current_user_def signed_in_def initial_client_def example_store_def
      cheque_of_def short_id_all_a)

text \<open>
  After this issue two active public cheques carry the code \<open>aaaaaaaaaa\<close>.
\<close>

theorem issue_with_colliding_code:
  "case handleCreateCheque (\<lambda>i. 10) ((signed_in ''alice'' 50)\<lparr>createAmount := Some 20\<rparr>)
          (example_store 50 0 [(''bob'', [cheque_of ''bob'' ''aaaaaaaaaa'' 5 1])]
              [cheque_of ''bob'' ''aaaaaaaaaa'' 5 1]) of
     (c', st') \<Rightarrow>
       message c' = Some (ChequeCreated 20 ''aaaaaaaaaa'') \<and>
       cheque_of ''bob'' ''aaaaaaaaaa'' 5 1 \<in>
         set (query_short_id ''aaaaaaaaaa'' (public_cheques st')) \<and>
       cheque_of ''alice'' ''aaaaaaaaaa'' 20 1 \<in>
         set (query_short_id ''aaaaaaaaaa'' (public_cheques st')) \<and>
       active (snd (cheque_of ''bob'' ''aaaaaaaaaa'' 5 1)) = 1 \<and>
       active (snd (cheque_of ''alice'' ''aaaaaaaaaa'' 20 1)) = 1 \<and>
       cheque_of ''bob'' ''aaaaaaaaaa'' 5 1 \<noteq> cheque_of ''alice'' ''aaaaaaaaaa'' 20 1"
  by (simp add: handleCreateCheque_def changeBalance_def current_user_def signed_in_def
      initial_client_def example_store_def cheque_of_def setDoc_def doc_exists_def
      query_short_id_def showMessage_def Let_def short_id_all_a)

subsection \<open>Issuing and then deleting\<close>














subsection \<open>The balance is never negative\<close>

lemma amounts_ok_setDoc: "amounts_ok xs \<Longrightarrow> 0 \<le> amount d \<Longrightarrow> amounts_ok (setDoc k d xs)"
  by (auto simp: amounts_ok_def setDoc_def split: if_splits)

lemma amounts_ok_deactivate:
  "amounts_ok xs \<Longrightarrow>
     amounts_ok (map (\<lambda>(j, e). if j = k then (j, deactivate e) else (j, e)) xs)"
  by (auto simp: amounts_ok_def deactivate_def split: if_splits)

lemma amounts_ok_updateDoc:
  "amounts_ok xs \<Longrightarrow> updateDoc k deactivate xs = Some ys \<Longrightarrow> amounts_ok ys"
  by (auto simp: updateDoc_def amounts_ok_deactivate split: if_splits)

lemma amounts_ok_filter: "amounts_ok xs \<Longrightarrow> amounts_ok (filter P xs)"
  by (auto simp: amounts_ok_def)

lemma amounts_ok_mem: "amounts_ok xs \<Longrightarrow> (k, d) \<in> set xs \<Longrightarrow> 0 \<le> amount d"
  by (auto simp: amounts_ok_def)

lemma changeBalance_ok:
  assumes "store_ok st" and "client_ok c" and "0 \<le> userBalance c + amt"
  shows "client_ok (fst (changeBalance amt c st)) \<and> store_ok (snd (changeBalance amt c st))"
  using assms
  by (auto simp: changeBalance_def store_ok_def client_ok_def showMessage_def js_add_nonneg
      split: option.splits)

lemma changeBalance_userBalance: "userBalance (fst (changeBalance amt c st)) = userBalance c"
  by (simp add: changeBalance_def showMessage_def split: option.splits)

lemma store_ok_cheques:
  "store_ok st \<Longrightarrow> amounts_ok xs \<Longrightarrow> store_ok (st\<lparr>cheques := (cheques st)(u := xs)\<rparr>)"
  by (simp add: store_ok_def)

lemma store_ok_public: "store_ok st \<Longrightarrow> amounts_ok xs \<Longrightarrow> store_ok (st\<lparr>public_cheques := xs\<rparr>)"
  by (simp add: store_ok_def)

lemma client_ok_updates:
  "client_ok (showMessage m c) = client_ok c"
  "client_ok (c\<lparr>createAmount := a\<rparr>) = client_ok c"
  "client_ok (c\<lparr>createIsAnonymous := an\<rparr>) = client_ok c"
  "client_ok (c\<lparr>activateChequeId := code\<rparr>) = client_ok c"
  "client_ok (c\<lparr>message := t\<rparr>) = client_ok c"
  by (simp_all add: client_ok_def showMessage_def)

lemma handleCreateCheque_valid_ok:
  assumes "store_ok st" and "client_ok c"
    and v: "current_user c = Some u" "createAmount c = Some a" "0 < a" "a \<le> userBalance c"
  shows "client_ok (fst (handleCreateCheque rnd c st)) \<and>
         store_ok (snd (handleCreateCheque rnd c st))"
proof -
  have cb: "client_ok (fst (changeBalance (- a) c st)) \<and>
      store_ok (snd (changeBalance (- a) c st))"
    using assms by (intro changeBalance_ok) simp_all
  let ?st1 = "snd (changeBalance (- a) c st)"
  let ?d = "\<lparr>short_id = generateShortId rnd, owner_id = u, amount = a, active = 1,
               anonymous = createIsAnonymous c\<rparr>"
  let ?k = "u @ ''-'' @ generateShortId rnd"
  from cb have ok1: "store_ok ?st1" by simp
  then have "amounts_ok (setDoc ?k ?d (cheques ?st1 u))"
    using v(3) by (intro amounts_ok_setDoc) (simp_all add: store_ok_def)
  with ok1 have ok2: "store_ok (?st1\<lparr>cheques := (cheques ?st1)(u := setDoc ?k ?d (cheques ?st1 u))\<rparr>)"
    by (rule store_ok_cheques)
  from ok1 have "amounts_ok (setDoc ?k ?d (public_cheques ?st1))"
    using v(3) by (intro amounts_ok_setDoc) (simp_all add: store_ok_def)
  with ok2 have "store_ok (?st1\<lparr>cheques := (cheques ?st1)(u := setDoc ?k ?d (cheques ?st1 u)),
      public_cheques := setDoc ?k ?d (public_cheques ?st1)\<rparr>)"
    by (simp add: store_ok_def)
  with cb show ?thesis
    using v by (simp add: handleCreateCheque_valid Let_def split_def client_ok_updates)
qed

lemma handleCreateCheque_ok:
  assumes "store_ok st" and "client_ok c"
  shows "client_ok (fst (handleCreateCheque rnd c st)) \<and>
         store_ok (snd (handleCreateCheque rnd c st))"
proof (cases "current_user c")
  case None
  with assms show ?thesis by (simp add: handleCreateCheque_def)
next
  case u: (Some u)
  show ?thesis
  proof (cases "createAmount c")
    case None
    with assms u show ?thesis by (simp add: handleCreateCheque_def client_ok_updates)
  next
    case a: (Some a)
    consider "a \<le> 0" | "0 < a" "userBalance c < a" | "0 < a" "a \<le> userBalance c"
      by linarith
    then show ?thesis
    proof cases
      case 1
      with assms u a show ?thesis by (simp add: handleCreateCheque_def client_ok_updates)
    next
      case 2
      with assms u a show ?thesis by (simp add: handleCreateCheque_def client_ok_updates)
    next
      case 3
      with assms u a show ?thesis by (intro handleCreateCheque_valid_ok)
    qed
  qed
qed

lemma handleActivateCheque_ok:
  assumes "store_ok st" and "client_ok c"
  shows "client_ok (fst (handleActivateCheque c st)) \<and>
         store_ok (snd (handleActivateCheque c st))"
proof (cases "current_user c")
  case None
  with assms show ?thesis by (simp add: handleActivateCheque_def)
next
  case u: (Some u)
  show ?thesis
  proof (cases "activateChequeId c = []")
    case True
    with assms u show ?thesis by (simp add: handleActivateCheque_def client_ok_updates)
  next
    case code: False
    show ?thesis
    proof (cases "find_active (query_short_id (activateChequeId c) (public_cheques st))")
      case None
      with assms u code show ?thesis
        by (simp add: handleActivateCheque_def Let_def client_ok_updates)
    next
      case (Some kc)
      obtain k ch where kc: "kc = (k, ch)" by (cases kc)
      with Some have fa: "find_active (query_short_id (activateChequeId c) (public_cheques st)) =
          Some (k, ch)" by simp
      then have "(k, ch) \<in> set (public_cheques st)"
        by (blast dest: find_active_Some query_short_id_subset)
      with assms(1) have amt: "0 \<le> amount ch"
        by (auto simp: store_ok_def dest: amounts_ok_mem)
      let ?g = "\<lambda>(j, d). if j = k then (j, deactivate d) else (j, d)"
      let ?st1 = "st\<lparr>public_cheques := map ?g (public_cheques st)\<rparr>"
      have ok1: "store_ok ?st1"
        using assms(1) by (simp add: store_ok_def amounts_ok_deactivate)
      show ?thesis
      proof (cases "owner_id ch = u")
        case True
        with assms u code fa show ?thesis
          by (simp add: handleActivateCheque_found client_ok_updates)
      next
        case other: False
        show ?thesis
        proof (cases "updateDoc k deactivate (cheques st (owner_id ch))")
          case None
          with assms u code fa other ok1 show ?thesis
            by (simp add: handleActivateCheque_found client_ok_updates)
        next
          case (Some priv)
          with assms(1) have "amounts_ok priv"
            by (auto simp: store_ok_def intro: amounts_ok_updateDoc)
          with ok1 have ok2: "store_ok (?st1\<lparr>cheques := (cheques st)(owner_id ch := priv)\<rparr>)"
            by (simp add: store_ok_def)
          have "client_ok (fst (changeBalance (amount ch) c
                  (?st1\<lparr>cheques := (cheques st)(owner_id ch := priv)\<rparr>))) \<and>
                store_ok (snd (changeBalance (amount ch) c
                  (?st1\<lparr>cheques := (cheques st)(owner_id ch := priv)\<rparr>)))"
            using ok2 assms(2) amt by (intro changeBalance_ok) (simp_all add: client_ok_def)
          with u code fa other Some show ?thesis
            by (simp add: handleActivateCheque_found Let_def split_def client_ok_updates)
        qed
      qed
    qed
  qed
qed

lemma handleDeleteCheque_ok:
  assumes "store_ok st" and "client_ok c" and amt: "0 \<le> amount ch"
  shows "client_ok (fst (handleDeleteCheque (cid, ch) c st)) \<and>
         store_ok (snd (handleDeleteCheque (cid, ch) c st))"
proof (cases "current_user c")
  case None
  with assms show ?thesis by (simp add: handleDeleteCheque_def)
next
  case u: (Some u)
  show ?thesis
  proof (cases "updateDoc cid deactivate (cheques st u)")
    case None
    with assms u show ?thesis by (simp add: handleDeleteCheque_def client_ok_updates)
  next
    case priv: (Some priv)
    with assms(1) have "amounts_ok priv"
      by (auto simp: store_ok_def intro: amounts_ok_updateDoc)
    with assms(1) have ok1: "store_ok (st\<lparr>cheques := (cheques st)(u := priv)\<rparr>)"
      by (rule store_ok_cheques)
    show ?thesis
    proof (cases "updateDoc cid deactivate (public_cheques st)")
      case None
      with assms u priv ok1 show ?thesis
        by (simp add: handleDeleteCheque_def client_ok_updates)
    next
      case pub: (Some pub)
      with assms(1) have "amounts_ok pub"
        by (auto simp: store_ok_def intro: amounts_ok_updateDoc)
      with ok1 have ok2: "store_ok (st\<lparr>cheques := (cheques st)(u := priv), public_cheques := pub\<rparr>)"
        by (simp add: store_ok_def)
      have "client_ok (fst (changeBalance (amount ch) c
              (st\<lparr>cheques := (cheques st)(u := priv), public_cheques := pub\<rparr>))) \<and>
            store_ok (snd (changeBalance (amount ch) c
              (st\<lparr>cheques := (cheques st)(u := priv), public_cheques := pub\<rparr>)))"
        using ok2 assms(2) amt by (intro changeBalance_ok) (simp_all add: client_ok_def)
      with u priv pub show ?thesis
        by (simp add: handleDeleteCheque_def Let_def split_def client_ok_updates)
    qed
  qed
qed

lemma authStateChanged_ok:
  assumes "store_ok st" and "client_ok c"
  shows "client_ok (fst (authStateChanged uid c st)) \<and>
         store_ok (snd (authStateChanged uid c st))"
  using assms
  by (auto simp: authStateChanged_def store_ok_def client_ok_def split: option.splits)

lemma profileSnapshot_ok: "store_ok st \<Longrightarrow> client_ok c \<Longrightarrow> client_ok (profileSnapshot c st)"
  by (auto simp: profileSnapshot_def store_ok_def client_ok_def split: option.splits)

lemma chequesSnapshot_ok: "store_ok st \<Longrightarrow> client_ok c \<Longrightarrow> client_ok (chequesSnapshot c st)"
  by (auto simp: chequesSnapshot_def store_ok_def client_ok_def amounts_ok_filter
      split: option.splits)

lemma with_client_ok:
  assumes "system_ok s"
    and "\<And>c st. store_ok st \<Longrightarrow> client_ok c \<Longrightarrow>
           client_ok (fst (f c st)) \<and> store_ok (snd (f c st))"
  shows "system_ok (with_client i f s)"
proof (cases "i < length (clients s)")
  case False
  with assms(1) show ?thesis by (simp add: with_client_def)
next
  case True
  then have "clients s ! i \<in> set (clients s)" by simp
  with assms(1) have ci: "client_ok (clients s ! i)" and st: "store_ok (firestore s)"
    by (simp_all add: system_ok_def)
  from assms(2) [OF st ci]
  have new: "client_ok (fst (f (clients s ! i) (firestore s)))"
    "store_ok (snd (f (clients s ! i) (firestore s)))" by simp_all
  have "\<forall>c \<in> set ((clients s)[i := fst (f (clients s ! i) (firestore s))]). client_ok c"
  proof
    fix c assume "c \<in> set ((clients s)[i := fst (f (clients s ! i) (firestore s))])"
    then have "c \<in> insert (fst (f (clients s ! i) (firestore s))) (set (clients s))"
      using set_update_subset_insert by fast
    with new(1) assms(1) show "client_ok c" by (auto simp: system_ok_def)
  qed
  with True new(2) show ?thesis
    by (simp add: with_client_def split_def system_ok_def)
qed

lemma step_ok: "system_ok s \<Longrightarrow> system_ok (step e s)"
proof (cases e)
  case (DeleteCheque i n)
  assume ok: "system_ok s"
  have "client_ok (fst (if n < length (activeCheques c)
            then handleDeleteCheque (activeCheques c ! n) c st else (c, st))) \<and>
        store_ok (snd (if n < length (activeCheques c)
            then handleDeleteCheque (activeCheques c ! n) c st else (c, st)))"
    if "store_ok st" and "client_ok c" for c st
  proof (cases "n < length (activeCheques c)")
    case False
    with that show ?thesis by simp
  next
    case True
    obtain cid ch where eq: "activeCheques c ! n = (cid, ch)" by (cases "activeCheques c ! n")
    with True have "(cid, ch) \<in> set (activeCheques c)" by (metis nth_mem)
    with that(2) have "0 \<le> amount ch" by (auto simp: client_ok_def dest: amounts_ok_mem)
    with that True eq show ?thesis by (simp add: handleDeleteCheque_ok)
  qed
  with ok DeleteCheque show ?thesis by (simp add: with_client_ok)
qed (simp_all add: with_client_ok authStateChanged_ok profileSnapshot_ok chequesSnapshot_ok
      handleCreateCheque_ok handleActivateCheque_ok client_ok_updates)

lemma run_ok: "system_ok s \<Longrightarrow> system_ok (run es s)"
  by (induction es arbitrary: s) (simp_all add: step_ok)

lemma initial_system_ok: "system_ok (initial_system n)"
  by (simp add: system_ok_def initial_system_def store_ok_def client_ok_def amounts_ok_def
      empty_store_def initial_client_def)

lemma example_run_balances:
  "map_option balance (profiles (firestore (run example_events example_system)) ''alice'') = Some 30 \<and>
   map_option balance (profiles (firestore (run example_events example_system)) ''bob'') = Some 20 \<and>
   map snd (map (\<lambda>(k, d). (k, active d)) (public_cheques (firestore (run example_events example_system)))) = [0, 0]"
  by code_simp

lemma example_system_ok: "system_ok example_system"
  by (simp add: system_ok_def example_system_def store_ok_def client_ok_def amounts_ok_def
      funded_store_def empty_store_def signed_in_def initial_client_def)

text \<open>
  Claim C9. A profile is created with balance 0, and from every state in which no
  balance and no amount is negative, every sequence of sign-ins, snapshots, inputs,
  issues, redemptions and deletions, by any number of applications, leads to a state in
  which again no balance is negative. This holds whether or not the applications'
  snapshots are up to date: every write puts \<open>userBalance + amount\<close> with both
  summands non-negative, or \<open>userBalance - amount\<close> with \<open>amount \<le> userBalance\<close>.
\<close>

theorem balances_never_negative:
  "system_ok (initial_system n) \<and>
   (system_ok s \<longrightarrow>
      system_ok (run es s) \<and>
      (\<forall>u p. profiles (firestore (run es s)) u = Some p \<longrightarrow> 0 \<le> balance p))"
proof (intro conjI impI allI)
  show "system_ok (initial_system n)"
    by (rule initial_system_ok)
next
  assume "system_ok s"
  then show "system_ok (run es s)"
    by (rule run_ok)
next
  fix u p
  assume "system_ok s" and "profiles (firestore (run es s)) u = Some p"
  from run_ok [OF this(1), of es] this(2) show "0 \<le> balance p"
    by (simp add: system_ok_def store_ok_def)
qed

theorem balances_never_negative_witness:
  "system_ok example_system \<and>
   system_ok (run example_events example_system) \<and>
   map_option balance (profiles (firestore (run example_events example_system)) ''alice'') = Some 30 \<and>
   map_option balance (profiles (firestore (run example_events example_system)) ''bob'') = Some 20"
  using balances_never_negative [of 2 example_system example_events]
    example_system_ok example_run_balances
  by simp

end
